theory Spec2Isabelle
  imports Complex_Main
begin

section \<open>Income brackets and their textual ranges\<close>

text \<open>
  The two scripts \<^verbatim>\<open>fetch_statscan_income.py\<close> and \<^verbatim>\<open>statscan_income_analyzer.py\<close>
  work on a list of dictionaries with the keys \<^verbatim>\<open>'range'\<close> and \<^verbatim>\<open>'percentage'\<close>.
  A bracket is a record with these two fields (the field \<^verbatim>\<open>'absolute'\<close> of the sample
  data is never read). Python's numbers are modelled by exact rationals: an \<^verbatim>\<open>int\<close> is
  embedded as it is, and a \<^verbatim>\<open>float\<close> is idealised as the rational it denotes, so that
  \<^verbatim>\<open>+\<close>, \<^verbatim>\<open>*\<close>, \<^verbatim>\<open>/\<close> and the comparisons are the exact ones. Labels are strings of
  ASCII characters.
\<close>

record bracket =
  range_str :: string
  percentage :: rat

datatype py_error = IndexError | ZeroDivisionError

subsection \<open>String primitives of the Python library\<close>

text \<open>\<^verbatim>\<open>s.replace('$', '').replace(',', '')\<close>\<close>

definition clean :: "string \<Rightarrow> string" where
  "clean s = filter (\<lambda>c. c \<noteq> CHR '','') (filter (\<lambda>c. c \<noteq> CHR ''$'') s)"

text \<open>\<^verbatim>\<open>s.lower()\<close> on ASCII text.\<close>

definition lower_char :: "char \<Rightarrow> char" where
  "lower_char c =
     (case map_of (zip ''ABCDEFGHIJKLMNOPQRSTUVWXYZ'' ''abcdefghijklmnopqrstuvwxyz'') c of
        Some l \<Rightarrow> l
      | None \<Rightarrow> c)"

definition lower :: "string \<Rightarrow> string" where
  "lower s = map lower_char s"

text \<open>\<^verbatim>\<open>sub in s\<close> for strings: \<open>sub\<close> occurs as a contiguous block of \<open>s\<close>.\<close>

fun starts_with :: "string \<Rightarrow> string \<Rightarrow> bool" where
  "starts_with [] s = True"
| "starts_with (p # ps) [] = False"
| "starts_with (p # ps) (c # cs) = (p = c \<and> starts_with ps cs)"

fun py_in :: "string \<Rightarrow> string \<Rightarrow> bool" where
  "py_in sub [] = (sub = [])"
| "py_in sub (c # cs) = (starts_with sub (c # cs) \<or> py_in sub cs)"

text \<open>\<^verbatim>\<open>s.strip().endswith('+')\<close>: the last character that is not white space is a plus.\<close>

definition is_space :: "char \<Rightarrow> bool" where
  "is_space c = (c \<in> set [CHR '' '', CHR 0x09, CHR 0x0A, CHR 0x0B, CHR 0x0C, CHR 0x0D,
                            CHR 0x1C, CHR 0x1D, CHR 0x1E, CHR 0x1F])"

definition strip :: "string \<Rightarrow> string" where
  "strip s = rev (dropWhile is_space (rev (dropWhile is_space s)))"

definition endswith_plus :: "string \<Rightarrow> bool" where
  "endswith_plus s = (case rev s of [] \<Rightarrow> False | c # _ \<Rightarrow> c = CHR ''+'')"

text \<open>
  \<^verbatim>\<open>re.findall(r'\d+', s)\<close>: the maximal runs of decimal digits of \<open>s\<close>, from left to
  right. \<open>digit_runs cur s\<close> carries the run that is being read.
\<close>

definition is_digit :: "char \<Rightarrow> bool" where
  "is_digit c = (c \<in> set ''0123456789'')"

fun digit_runs :: "string \<Rightarrow> string \<Rightarrow> string list" where
  "digit_runs cur [] = (if cur = [] then [] else [cur])"
| "digit_runs cur (c # cs) =
     (if is_digit c then digit_runs (cur @ [c]) cs
      else if cur = [] then digit_runs [] cs
      else cur # digit_runs [] cs)"

definition findall_digits :: "string \<Rightarrow> string list" where
  "findall_digits s = digit_runs [] s"

text \<open>\<^verbatim>\<open>int(tok)\<close> and \<^verbatim>\<open>float(tok)\<close> of a run of decimal digits.\<close>

definition digit_val :: "char \<Rightarrow> nat" where
  "digit_val c =
     (case map_of (zip ''0123456789'' [0, 1, 2, 3, 4, 5, 6, 7, 8, 9]) c of
        Some d \<Rightarrow> d
      | None \<Rightarrow> 0)"

definition int_of_digits :: "string \<Rightarrow> nat" where
  "int_of_digits tok = foldl (\<lambda>a c. 10 * a + digit_val c) 0 tok"

definition num :: "string \<Rightarrow> rat" where
  "num tok = of_nat (int_of_digits tok)"

subsection \<open>The range parser of \<^verbatim>\<open>fetch_statscan_income.py\<close>\<close>

definition under_marker :: "string \<Rightarrow> bool" where
  "under_marker clean_str = py_in ''under'' (lower clean_str)"

definition over_marker :: "string \<Rightarrow> bool" where
  "over_marker clean_str =
     (py_in ''over'' (lower clean_str) \<or> py_in ''and over'' (lower clean_str)
      \<or> endswith_plus (strip clean_str))"

definition extract_minimum_of_range :: "string \<Rightarrow> rat option" where
  "extract_minimum_of_range r =
     (let clean_str = clean r; numbers = findall_digits clean_str in
      if under_marker clean_str then
        (case numbers of [] \<Rightarrow> None | n # ns \<Rightarrow> Some 0)
      else if over_marker clean_str then
        (case numbers of [] \<Rightarrow> None | n # ns \<Rightarrow> Some (num n))
      else
        (case numbers of [] \<Rightarrow> None | n # ns \<Rightarrow> Some (num n)))"

definition extract_maximum_of_range :: "string \<Rightarrow> rat option" where
  "extract_maximum_of_range r =
     (let clean_str = clean r; numbers = findall_digits clean_str in
      if under_marker clean_str then
        (case numbers of [] \<Rightarrow> None | n # ns \<Rightarrow> Some (num n))
      else if over_marker clean_str then
        (case numbers of [] \<Rightarrow> None | n # ns \<Rightarrow> Some (num n * 2))
      else
        (case numbers of
           [] \<Rightarrow> None
         | [n] \<Rightarrow> Some (num n)
         | n # m # ns \<Rightarrow> Some (num m)))"

subsection \<open>Percentile thresholds of \<^verbatim>\<open>fetch_statscan_income.py\<close>\<close>

text \<open>
  Each \<^verbatim>\<open>for\<close> loop is a recursive scan that carries \<^verbatim>\<open>cumulative_pct\<close>; it yields
  \<open>Some r\<close> when the loop body returns \<open>r\<close> and \<open>None\<close> when the loop runs to its end.
\<close>

fun scan_75th :: "rat \<Rightarrow> bracket list \<Rightarrow> rat option" where
  "scan_75th cumulative_pct [] = None"
| "scan_75th cumulative_pct (b # bs) =
     (let cumulative_pct = cumulative_pct + percentage b in
      if cumulative_pct \<ge> 75 then
        Some (case extract_minimum_of_range (range_str b) of
                Some min_income \<Rightarrow> min_income
              | None \<Rightarrow> 0)
      else scan_75th cumulative_pct bs)"

text \<open>The code after both loops: the maximum of the last bracket, or 0.\<close>

definition last_bracket_maximum :: "bracket list \<Rightarrow> rat" where
  "last_bracket_maximum distribution =
     (if distribution \<noteq> [] then
        (case extract_maximum_of_range (range_str (last distribution)) of
           Some max_income \<Rightarrow> max_income
         | None \<Rightarrow> 0)
      else 0)"

definition calculate_75th_percentile_threshold_from_distribution :: "bracket list \<Rightarrow> rat" where
  "calculate_75th_percentile_threshold_from_distribution distribution =
     (case scan_75th 0 distribution of
        Some r \<Rightarrow> r
      | None \<Rightarrow> last_bracket_maximum distribution)"

text \<open>
  Python's \<^verbatim>\<open>round(x)\<close> with one argument: the nearest integer, a tie going to the even
  neighbour.
\<close>

definition py_round :: "rat \<Rightarrow> int" where
  "py_round x =
     (let f = \<lfloor>x\<rfloor>; d = x - of_int f in
      if d < 1 / 2 then f
      else if 1 / 2 < d then f + 1
      else if even f then f else f + 1)"

text \<open>
  The loop of \<^verbatim>\<open>calculate_bottom_25_threshold_from_distribution\<close>, with the constant 25
  of the source as the parameter \<open>target\<close>. The division
  \<^verbatim>\<open>remaining_pct / percentage\<close> raises \<^verbatim>\<open>ZeroDivisionError\<close> on a zero share, before
  the bounds are parsed.
\<close>

fun scan_interpolated :: "rat \<Rightarrow> rat \<Rightarrow> bracket list \<Rightarrow> (py_error + rat) option" where
  "scan_interpolated target cumulative_pct [] = None"
| "scan_interpolated target cumulative_pct (b # bs) =
     (if cumulative_pct + percentage b \<ge> target then
        (let remaining_pct = target - cumulative_pct in
         if percentage b = 0 then Some (Inl ZeroDivisionError)
         else
           (let bracket_share = remaining_pct / percentage b;
                min_income = extract_minimum_of_range (range_str b);
                max_income = extract_maximum_of_range (range_str b) in
            case min_income of
              None \<Rightarrow> Some (Inr 0)
            | Some lo \<Rightarrow>
                (case max_income of
                   None \<Rightarrow> Some (Inr lo)
                 | Some hi \<Rightarrow> Some (Inr (of_int (py_round (lo + (hi - lo) * bracket_share)))))))
      else scan_interpolated target (cumulative_pct + percentage b) bs)"

definition interpolated_threshold :: "rat \<Rightarrow> bracket list \<Rightarrow> py_error + rat" where
  "interpolated_threshold target distribution =
     (case scan_interpolated target 0 distribution of
        Some r \<Rightarrow> r
      | None \<Rightarrow> Inr (last_bracket_maximum distribution))"

definition calculate_bottom_25_threshold_from_distribution :: "bracket list \<Rightarrow> py_error + rat" where
  "calculate_bottom_25_threshold_from_distribution distribution =
     interpolated_threshold 25 distribution"

subsection \<open>The estimators of \<^verbatim>\<open>statscan_income_analyzer.py\<close>\<close>

definition extract_midpoint_of_range :: "string \<Rightarrow> rat option" where
  "extract_midpoint_of_range r =
     (let clean_str = clean r; numbers = findall_digits clean_str in
      case numbers of
        [lo, hi] \<Rightarrow> Some ((num lo + num hi) / 2)
      | [v] \<Rightarrow>
          (if CHR ''<'' \<in> set clean_str then Some (num v / 2)
           else if CHR ''>'' \<in> set clean_str \<or> CHR ''+'' \<in> set clean_str then Some (num v * (3 / 2))
           else Some (num v))
      | _ \<Rightarrow> None)"

text \<open>
  The loop of \<^verbatim>\<open>estimate_average_from_distribution\<close> carries
  \<^verbatim>\<open>total_weighted_income\<close> and \<^verbatim>\<open>total_percentage\<close>. The test \<^verbatim>\<open>if mid_point:\<close> is
  Python truthiness: it fails on \<^verbatim>\<open>None\<close> and on a midpoint that is zero.
\<close>

fun average_loop :: "rat \<Rightarrow> rat \<Rightarrow> bracket list \<Rightarrow> rat \<times> rat" where
  "average_loop total_weighted_income total_percentage [] =
     (total_weighted_income, total_percentage)"
| "average_loop total_weighted_income total_percentage (b # bs) =
     (case extract_midpoint_of_range (range_str b) of
        None \<Rightarrow> average_loop total_weighted_income total_percentage bs
      | Some mid_point \<Rightarrow>
          if mid_point \<noteq> 0 then
            average_loop (total_weighted_income + mid_point * percentage b)
              (total_percentage + percentage b) bs
          else average_loop total_weighted_income total_percentage bs)"

definition estimate_average_from_distribution :: "bracket list \<Rightarrow> rat" where
  "estimate_average_from_distribution distribution =
     (case average_loop 0 0 distribution of
        (total_weighted_income, total_percentage) \<Rightarrow>
          if total_percentage > 0 then total_weighted_income / total_percentage else 0)"

text \<open>
  The loop of \<^verbatim>\<open>calculate_top_75_threshold\<close>. In the branch for \<^verbatim>\<open>'<'\<close> the source reads
  \<^verbatim>\<open>numbers[0]\<close> without a test, which raises \<^verbatim>\<open>IndexError\<close> on an empty list; a label
  with neither \<^verbatim>\<open>'<'\<close> nor a number lets the loop go on to the next bracket.
\<close>

fun scan_top_75 :: "rat \<Rightarrow> bracket list \<Rightarrow> (py_error + rat) option" where
  "scan_top_75 cumulative_pct [] = None"
| "scan_top_75 cumulative_pct (b # bs) =
     (let cumulative_pct = cumulative_pct + percentage b in
      if cumulative_pct \<ge> 25 then
        (let clean_str = clean (range_str b); numbers = findall_digits clean_str in
         if CHR ''<'' \<in> set clean_str then
           (case numbers of
              [] \<Rightarrow> Some (Inl IndexError)
            | n # ns \<Rightarrow> Some (Inr (num n)))
         else
           (case numbers of
              [] \<Rightarrow> scan_top_75 cumulative_pct bs
            | n # ns \<Rightarrow> Some (Inr (num n))))
      else scan_top_75 cumulative_pct bs)"

definition calculate_top_75_threshold :: "bracket list \<Rightarrow> py_error + rat" where
  "calculate_top_75_threshold distribution =
     (case scan_top_75 0 distribution of
        Some r \<Rightarrow> r
      | None \<Rightarrow>
          if distribution \<noteq> [] then
            (case findall_digits (clean (range_str (last distribution))) of
               [] \<Rightarrow> Inr 0
             | n # ns \<Rightarrow> Inr (num n))
          else Inr 0)"

subsection \<open>The sample distributions embedded in the two scripts\<close>

definition fetch_sample_distribution :: "bracket list" where
  "fetch_sample_distribution =
     [\<lparr>range_str = ''Under $10,000'', percentage = 5.4\<rparr>,
      \<lparr>range_str = ''$10,000 to $19,999'', percentage = 7.1\<rparr>,
      \<lparr>range_str = ''$20,000 to $29,999'', percentage = 8.3\<rparr>,
      \<lparr>range_str = ''$30,000 to $39,999'', percentage = 8.9\<rparr>,
      \<lparr>range_str = ''$40,000 to $49,999'', percentage = 9.2\<rparr>,
      \<lparr>range_str = ''$50,000 to $59,999'', percentage = 9.0\<rparr>,
      \<lparr>range_str = ''$60,000 to $69,999'', percentage = 8.4\<rparr>,
      \<lparr>range_str = ''$70,000 to $79,999'', percentage = 7.6\<rparr>,
      \<lparr>range_str = ''$80,000 to $89,999'', percentage = 6.6\<rparr>,
      \<lparr>range_str = ''$90,000 to $99,999'', percentage = 5.7\<rparr>,
      \<lparr>range_str = ''$100,000 to $149,999'', percentage = 13.6\<rparr>,
      \<lparr>range_str = ''$150,000 to $199,999'', percentage = 7.3\<rparr>,
      \<lparr>range_str = ''$200,000 and over'', percentage = 2.9\<rparr>]"

definition analyzer_sample_distribution :: "bracket list" where
  "analyzer_sample_distribution =
     [\<lparr>range_str = ''<$20,000'', percentage = 8.5\<rparr>,
      \<lparr>range_str = ''$20,000-$39,999'', percentage = 12.1\<rparr>,
      \<lparr>range_str = ''$40,000-$59,999'', percentage = 15.3\<rparr>,
      \<lparr>range_str = ''$60,000-$79,999'', percentage = 16.7\<rparr>,
      \<lparr>range_str = ''$80,000-$99,999'', percentage = 13.2\<rparr>,
      \<lparr>range_str = ''$100,000-$149,999'', percentage = 18.4\<rparr>,
      \<lparr>range_str = ''$150,000-$199,999'', percentage = 9.8\<rparr>,
      \<lparr>range_str = ''$200,000+'', percentage = 6.0\<rparr>]"

subsection \<open>Notions used to state the properties\<close>

text \<open>
  The sum of the shares of a list of brackets, and the list of the values that
  \<^verbatim>\<open>cumulative_pct\<close> takes after each bracket when the scan starts from \<open>cum\<close>.
\<close>

definition total_share :: "bracket list \<Rightarrow> rat" where
  "total_share bs = sum_list (map percentage bs)"

fun running_totals :: "rat \<Rightarrow> bracket list \<Rightarrow> rat list" where
  "running_totals cum [] = []"
| "running_totals cum (b # bs) = (cum + percentage b) # running_totals (cum + percentage b) bs"

definition stays_below :: "rat \<Rightarrow> bracket list \<Rightarrow> bool" where
  "stays_below target bs = list_all (\<lambda>c. c < target) (running_totals 0 bs)"

definition non_negative_shares :: "bracket list \<Rightarrow> bool" where
  "non_negative_shares bs = list_all (\<lambda>b. 0 \<le> percentage b) bs"



text \<open>
  The average as the specification words it: the sum of midpoint times share over the
  brackets whose label parses to a midpoint, divided by the sum of their shares, and 0
  when that sum is 0.
\<close>

definition parseable_midpoints :: "bracket list \<Rightarrow> (rat \<times> rat) list" where
  "parseable_midpoints bs =
     concat (map (\<lambda>b. case extract_midpoint_of_range (range_str b) of
                         None \<Rightarrow> []
                       | Some m \<Rightarrow> [(m, percentage b)]) bs)"

definition weighted_mean_of_midpoints :: "bracket list \<Rightarrow> rat" where
  "weighted_mean_of_midpoints bs =
     (let ms = parseable_midpoints bs;
          total = sum_list (map snd ms) in
      if total = 0 then 0 else sum_list (map (\<lambda>(m, s). m * s) ms) / total)"

section \<open>Evaluation of the string primitives\<close>

lemmas str_defs =
  clean_def findall_digits_def is_digit_def under_marker_def over_marker_def lower_def
  lower_char_def num_def int_of_digits_def digit_val_def strip_def endswith_plus_def
  is_space_def

lemmas estimator_defs =
  calculate_75th_percentile_threshold_from_distribution_def last_bracket_maximum_def
  calculate_bottom_25_threshold_from_distribution_def interpolated_threshold_def
  calculate_top_75_threshold_def estimate_average_from_distribution_def
  extract_minimum_of_range_def extract_maximum_of_range_def extract_midpoint_of_range_def

section \<open>Facts about the scans\<close>

lemma scan_interpolated_no_error:
  "non_negative_shares bs \<Longrightarrow> cum < target \<Longrightarrow> scan_interpolated target cum bs \<noteq> Some (Inl e)"
proof (induction bs arbitrary: cum)
  case Nil
  then show ?case by simp
next
  case (Cons b bs)
  then have nn: "0 \<le> percentage b" and rest: "non_negative_shares bs"
    by (simp_all add: non_negative_shares_def)
  show ?case
  proof (cases "cum + percentage b \<ge> target")
    case True
    with Cons.prems(2) have "percentage b \<noteq> 0" by auto
    with True show ?thesis
      by (simp add: Let_def split: option.splits)
  next
    case False
    then have "cum + percentage b < target" by simp
    from Cons.IH[OF rest this] False show ?thesis by simp
  qed
qed

lemma total_share_simps [simp]:
  "total_share [] = 0" "total_share (b # bs) = percentage b + total_share bs"
  "total_share (xs @ ys) = total_share xs + total_share ys"
  by (simp_all add: total_share_def)





lemma running_totals_last:
  "list_all (\<lambda>c. c < target) (running_totals cum pre) \<Longrightarrow> cum < target \<Longrightarrow>
   cum + total_share pre < target"
proof (induction pre arbitrary: cum)
  case Nil
  then show ?case by simp
next
  case (Cons b pre)
  then have "cum + percentage b + total_share pre < target" by simp
  then show ?case by (simp add: add.assoc)
qed

lemma py_round_unique:
  "of_int n - 1 / 2 < x \<Longrightarrow> x < of_int n + 1 / 2 \<Longrightarrow> py_round x = n"
  unfolding py_round_def Let_def by (auto; linarith)














text \<open>
  Where no label parses to the midpoint zero and the shares are non-negative, the average
  estimator is the weighted mean of the midpoints of the brackets that parse.
\<close>

lemma average_loop_sums:
  "list_all (\<lambda>b. extract_midpoint_of_range (range_str b) \<noteq> Some 0) bs \<Longrightarrow>
   average_loop tw tp bs =
     (tw + sum_list (map (\<lambda>(m, s). m * s) (parseable_midpoints bs)),
      tp + sum_list (map snd (parseable_midpoints bs)))"
  by (induction bs arbitrary: tw tp)
     (auto simp add: parseable_midpoints_def add.assoc split: option.splits)

lemma parseable_shares_nonneg:
  "non_negative_shares bs \<Longrightarrow> 0 \<le> sum_list (map snd (parseable_midpoints bs))"
  by (induction bs) (auto simp add: parseable_midpoints_def non_negative_shares_def split: option.splits)

lemma average_is_weighted_mean:
  assumes "list_all (\<lambda>b. extract_midpoint_of_range (range_str b) \<noteq> Some 0) bs"
    and "non_negative_shares bs"
  shows "estimate_average_from_distribution bs = weighted_mean_of_midpoints bs"
  using parseable_shares_nonneg[OF assms(2)]
  by (auto simp add: estimate_average_from_distribution_def weighted_mean_of_midpoints_def
      average_loop_sums[OF assms(1)] Let_def)

lemma average_single_bracket:
  "estimate_average_from_distribution [\<lparr>range_str = ''$0-$100,000'', percentage = 100\<rparr>] = 50000"
  by (simp add: estimator_defs str_defs)











section \<open>The empty distribution\<close>

text \<open>
  Claim C9. On the empty distribution every estimator returns 0 and raises nothing: the
  two percentile thresholds of the first script, the threshold of the second script and
  the average estimator.
\<close>

theorem empty_distribution_returns_zero:
  "calculate_75th_percentile_threshold_from_distribution [] = 0
   \<and> calculate_bottom_25_threshold_from_distribution [] = Inr 0
   \<and> calculate_top_75_threshold [] = Inr 0
   \<and> estimate_average_from_distribution [] = 0"
  by (simp add: estimator_defs)

section \<open>The two readings of the top 75% threshold\<close>

text \<open>
  Claim C3. The two implementations of the top 75% threshold are not the same function:
  on the sample distribution of the first script the one that crosses at 75 returns
  90000 and the one that crosses at 25 returns 30000, and on the sample distribution of
  the second script they return 100000 and 40000.
\<close>

theorem top_75_implementations_differ:
  "calculate_75th_percentile_threshold_from_distribution fetch_sample_distribution = 90000
   \<and> calculate_top_75_threshold fetch_sample_distribution = Inr 30000
   \<and> calculate_75th_percentile_threshold_from_distribution analyzer_sample_distribution = 100000
   \<and> calculate_top_75_threshold analyzer_sample_distribution = Inr 40000
   \<and> (\<exists>d. Inr (calculate_75th_percentile_threshold_from_distribution d)
            \<noteq> calculate_top_75_threshold d)"
proof -
  have a: "calculate_75th_percentile_threshold_from_distribution fetch_sample_distribution = 90000"
    by (simp add: estimator_defs fetch_sample_distribution_def str_defs)
  have b: "calculate_top_75_threshold fetch_sample_distribution = Inr 30000"
    by (simp add: estimator_defs fetch_sample_distribution_def str_defs)
  have c: "calculate_75th_percentile_threshold_from_distribution analyzer_sample_distribution = 100000"
    by (simp add: estimator_defs analyzer_sample_distribution_def str_defs)
  have d: "calculate_top_75_threshold analyzer_sample_distribution = Inr 40000"
    by (simp add: estimator_defs analyzer_sample_distribution_def str_defs)
  have "Inr (calculate_75th_percentile_threshold_from_distribution fetch_sample_distribution)
          \<noteq> calculate_top_75_threshold fetch_sample_distribution"
    by (simp only: a b) simp
  then show ?thesis using a b c d by blast
qed

section \<open>Division by a zero share\<close>

text \<open>
  Claim C8. On a distribution with non-negative shares the interpolating estimator
  never fails with a division by zero: it returns a value, because the bracket at which
  the running total first reaches 25 has a positive share, so that a bracket with share
  zero is never the one the division \<^verbatim>\<open>remaining_pct / percentage\<close> is performed on.
\<close>

theorem zero_share_never_divides:
  assumes "non_negative_shares d"
  shows "(\<exists>v. calculate_bottom_25_threshold_from_distribution d = Inr v)
         \<and> (\<forall>pre b post. d = pre @ b # post \<and> stays_below 25 pre
                \<and> 25 \<le> total_share pre + percentage b \<longrightarrow> 0 < percentage b)"
proof
  show "\<exists>v. calculate_bottom_25_threshold_from_distribution d = Inr v"
  proof (cases "scan_interpolated 25 0 d")
    case None
    then show ?thesis
      by (simp add: calculate_bottom_25_threshold_from_distribution_def interpolated_threshold_def)
  next
    case (Some r)
    have "r \<noteq> Inl e" for e
      using scan_interpolated_no_error[OF assms, of 0 25 e] Some by simp
    then obtain v where "r = Inr v" by (cases r) auto
    with Some show ?thesis
      by (simp add: calculate_bottom_25_threshold_from_distribution_def interpolated_threshold_def)
  qed
next
  show "\<forall>pre b post. d = pre @ b # post \<and> stays_below 25 pre
          \<and> 25 \<le> total_share pre + percentage b \<longrightarrow> 0 < percentage b"
  proof (intro allI impI)
    fix pre b post
    assume h: "d = pre @ b # post \<and> stays_below 25 pre \<and> 25 \<le> total_share pre + percentage b"
    then have "0 + total_share pre < 25"
      using running_totals_last[of 25 0 pre] by (simp add: stays_below_def)
    with h show "0 < percentage b" by linarith
  qed
qed

theorem zero_share_never_divides_witness:
  "non_negative_shares fetch_sample_distribution
   \<and> (\<exists>v. calculate_bottom_25_threshold_from_distribution fetch_sample_distribution = Inr v)"
proof -
  have h: "non_negative_shares fetch_sample_distribution"
    by (simp add: non_negative_shares_def fetch_sample_distribution_def)
  show ?thesis using h zero_share_never_divides[OF h] by blast
qed

section \<open>Interpolation within the crossing bracket\<close>



section \<open>Boundary mode\<close>




section \<open>A scan that never reaches the target\<close>




section \<open>Labels without a number\<close>




section \<open>The range parser\<close>




section \<open>The average estimator\<close>

text \<open>
  Claim C5 says that the average is the weighted mean of the midpoints over the brackets
  that parse. The code tests the midpoint with \<^verbatim>\<open>if mid_point:\<close>, which also rejects a
  midpoint that parsed to zero, so that the share of such a bracket is missing from the
  divisor: for the brackets \<^verbatim>\<open>$0\<close> and \<^verbatim>\<open>$100\<close> with share 50 each the code returns 100,
  and the weighted mean of the two midpoints is 50.
\<close>

theorem average_skips_zero_midpoint:
  "extract_midpoint_of_range ''$0'' = Some 0
   \<and> estimate_average_from_distribution
        [\<lparr>range_str = ''$0'', percentage = 50\<rparr>, \<lparr>range_str = ''$100'', percentage = 50\<rparr>] = 100
   \<and> weighted_mean_of_midpoints
        [\<lparr>range_str = ''$0'', percentage = 50\<rparr>, \<lparr>range_str = ''$100'', percentage = 50\<rparr>] = 50"
  by (simp add: estimator_defs weighted_mean_of_midpoints_def parseable_midpoints_def str_defs)

section \<open>Monotonicity of the interpolated threshold\<close>




end
